theory Spec2Isabelle
  imports Complex_Main
begin

section \<open>A Telegram front end for a conversational backend\<close>

text \<open>
  The development embeds \<^verbatim>\<open>src/telegram_bot.py\<close> (the access policy, the per-user
  continuity cache and the relay to the backend) and the constructor of
  \<^verbatim>\<open>src/bot/plugins/deepl.py\<close>. Python strings are \<open>string\<close>; the identifiers of
  Telegram users and chats are Python's unbounded integers, hence \<open>int\<close>; a value that
  is either \<^verbatim>\<open>None\<close> or a \<^verbatim>\<open>str\<close> is a \<open>pyval\<close>; a raised \<^verbatim>\<open>Exception\<close> is a
  value of \<open>exn\<close> on the left of a sum. Logging is left out: it changes nothing a
  caller can see.
\<close>

subsection \<open>Python values and built-ins\<close>

datatype pyval = PyNone | PyStr string

text \<open>
  An instance of Python's class \<^verbatim>\<open>Exception\<close>: the two classes the code itself
  raises, and one constructor for whatever else a collaborator raises.
\<close>

datatype exn = KeyError | ValueError string | OtherException string

text \<open>\<^verbatim>\<open>str(n)\<close> for an integer: decimal digits, a minus sign when negative.\<close>

fun str_nat :: "nat \<Rightarrow> string" where
  "str_nat n = (if n < 10 then [''0123456789'' ! n]
                else str_nat (n div 10) @ [''0123456789'' ! (n mod 10)])"

declare str_nat.simps [simp del]

definition str_int :: "int \<Rightarrow> string" where
  "str_int i = (if i < 0 then CHR ''-'' # str_nat (nat (- i)) else str_nat (nat i))"

text \<open>
  \<^verbatim>\<open>s.split(sep)\<close> for a one-character separator: every occurrence cuts, empty
  pieces are kept, and the empty string gives one empty piece. \<open>cur\<close> holds the
  piece being read, reversed.
\<close>

fun split_from :: "char \<Rightarrow> string \<Rightarrow> string \<Rightarrow> string list" where
  "split_from sep cur [] = [rev cur]"
| "split_from sep cur (c # cs) =
     (if c = sep then rev cur # split_from sep [] cs else split_from sep (c # cur) cs)"

definition split :: "string \<Rightarrow> char \<Rightarrow> string list" where
  "split s sep = split_from sep [] s"

subsection \<open>Incoming updates and the access policy\<close>

text \<open>\<^verbatim>\<open>telegram.constants.ChatType\<close>.\<close>

datatype ChatType = PRIVATE | GROUP | SUPERGROUP | CHANNEL | SENDER

text \<open>
  What the handlers read of an \<^verbatim>\<open>Update\<close>: \<^verbatim>\<open>message.from_user.id\<close>,
  \<^verbatim>\<open>message.chat.id\<close>, \<^verbatim>\<open>message.chat.type\<close>, \<^verbatim>\<open>message.message_id\<close> and
  \<^verbatim>\<open>message.text\<close>. (\<^verbatim>\<open>effective_chat.id\<close> of a message update is the chat's id.)
\<close>

record Update =
  from_user_id :: int
  chat_id :: int
  chat_type :: ChatType
  message_id :: int
  message_text :: string

text \<open>
  The configuration dictionary, by the two keys \<^verbatim>\<open>is_allowed\<close> reads; both hold
  strings.
\<close>

record config =
  allowed_user_ids :: string
  allowed_chat_ids :: string

text \<open>
  \<^verbatim>\<open>ChatGPT3TelegramBot.is_allowed\<close> (lines 159--184), with its two early returns and
  the final \<^verbatim>\<open>is_allow_group | is_allow_user\<close>.
\<close>

definition is_allowed :: "config \<Rightarrow> Update \<Rightarrow> bool" where
  "is_allowed cfg update =
     (let chat_type = chat_type update in
      if allowed_user_ids cfg = ''*'' \<and> chat_type = PRIVATE then True
      else if allowed_chat_ids cfg = ''*'' \<and> chat_type = GROUP then True
      else
        let is_allow_user =
              (str_int (from_user_id update) \<in> set (split (allowed_user_ids cfg) CHR '','')
               \<and> chat_type = PRIVATE);
            is_allow_group =
              (str_int (chat_id update) \<in> set (split (allowed_chat_ids cfg) CHR '','')
               \<and> chat_type \<in> set [GROUP, SUPERGROUP])
        in is_allow_group \<or> is_allow_user)"

subsection \<open>The expiring dictionary\<close>

text \<open>
  The continuity cache is an \<^verbatim>\<open>ExpiringDict\<close> of the package \<^verbatim>\<open>expiringdict\<close>,
  which the repository imports (line 9) and does not contain. Its operations are
  written here from section 4.1 of the specification. Time is in seconds, as
  \<^verbatim>\<open>time.time()\<close> reports it, and every operation takes the reading \<open>now\<close> of the
  clock it makes.
\<close>

text \<open>Modelled from the spec: the state of an \<^verbatim>\<open>ExpiringDict\<close> (section 4.1, "bounded
  mapping", capacity and time-to-live): its two limits and its entries, oldest first,
  each value with the time it was stored at.\<close>

record ('k, 'v) expiring_dict =
  max_len :: nat
  max_age :: real
  items :: "('k \<times> ('v \<times> real)) list"

text \<open>Modelled from the spec: the constructor of \<^verbatim>\<open>ExpiringDict\<close>, an empty store
  with its capacity (section 4.1, "store holds at most N entries") and its time-to-live.\<close>

definition ExpiringDict :: "nat \<Rightarrow> real \<Rightarrow> ('k, 'v) expiring_dict" where
  "ExpiringDict n age = \<lparr>max_len = n, max_age = age, items = []\<rparr>"

text \<open>
  The statements below ask for an age below the limit where they need a live entry and
  for an age above it where they need an expired one; none depends on the instant at
  which the age equals the limit.
\<close>

text \<open>Modelled from the spec: the expiry test of \<^verbatim>\<open>ExpiringDict\<close> (section 4.1, "an
  entry is considered absent once its age exceeds a fixed duration measured from its
  last put/creation").\<close>

definition expired :: "('k, 'v) expiring_dict \<Rightarrow> real \<Rightarrow> real \<Rightarrow> bool" where
  "expired d now set_time = (max_age d < now - set_time)"

text \<open>Modelled from the spec: deletion of a key from \<^verbatim>\<open>ExpiringDict\<close>, the order of
  the other entries kept.\<close>

definition delitem :: "'k \<Rightarrow> ('k, 'v) expiring_dict \<Rightarrow> ('k, 'v) expiring_dict" where
  "delitem k d = d\<lparr>items := filter (\<lambda>e. fst e \<noteq> k) (items d)\<rparr>"

text \<open>Modelled from the spec: eviction in \<^verbatim>\<open>ExpiringDict\<close> (section 4.1,
  "least-recently-inserted/updated first"): the oldest entry goes; nothing happens on an
  empty store.\<close>

definition popitem_first :: "('k, 'v) expiring_dict \<Rightarrow> ('k, 'v) expiring_dict" where
  "popitem_first d = d\<lparr>items := (case items d of [] \<Rightarrow> [] | e # es \<Rightarrow> es)\<rparr>"

text \<open>Modelled from the spec: \<^verbatim>\<open>key in d\<close> for \<^verbatim>\<open>ExpiringDict\<close> (section 4.1, "expiry
  is checked lazily on access"): an entry found expired is removed by the test itself
  and reported absent.\<close>

definition contains :: "real \<Rightarrow> 'k \<Rightarrow> ('k, 'v) expiring_dict \<Rightarrow> bool \<times> ('k, 'v) expiring_dict" where
  "contains now k d =
     (case map_of (items d) k of
        None \<Rightarrow> (False, d)
      | Some (v, set_time) \<Rightarrow>
          if expired d now set_time then (False, delitem k d) else (True, d))"

text \<open>Modelled from the spec: \<^verbatim>\<open>d[key]\<close> for \<^verbatim>\<open>ExpiringDict\<close>: the value of a live
  entry; \<^verbatim>\<open>KeyError\<close> for a missing key and for an expired entry, which is removed.\<close>

definition getitem :: "real \<Rightarrow> 'k \<Rightarrow> ('k, 'v) expiring_dict \<Rightarrow> (exn + 'v) \<times> ('k, 'v) expiring_dict" where
  "getitem now k d =
     (case map_of (items d) k of
        None \<Rightarrow> (Inl KeyError, d)
      | Some (v, set_time) \<Rightarrow>
          if expired d now set_time then (Inl KeyError, delitem k d) else (Inr v, d))"

text \<open>Modelled from the spec: the order of the entries of \<^verbatim>\<open>ExpiringDict\<close> under an
  assignment (section 4.1 leaves the place of an overwritten key open: "exact tie-break
  is an external collaborator's implementation detail"). As in Python's ordered
  dictionary, a key already there keeps its place and a new key goes last.\<close>

fun od_setitem :: "'k \<Rightarrow> 'w \<Rightarrow> ('k \<times> 'w) list \<Rightarrow> ('k \<times> 'w) list" where
  "od_setitem k w [] = [(k, w)]"
| "od_setitem k w (e # es) = (if fst e = k then (k, w) # es else e # od_setitem k w es)"

text \<open>Modelled from the spec: \<^verbatim>\<open>d[key] = value\<close> for \<^verbatim>\<open>ExpiringDict\<close> (section 4.1,
  "unconditionally overwrites (or inserts) the entry, resetting its age"; "when a new
  key would exceed capacity, some existing entry is evicted"). A full store first makes
  room: it drops the key's own live entry, or else its oldest entry. The value is then
  stored with the time \<open>now\<close>.\<close>

definition setitem :: "real \<Rightarrow> 'k \<Rightarrow> 'v \<Rightarrow> ('k, 'v) expiring_dict \<Rightarrow> ('k, 'v) expiring_dict" where
  "setitem now k v d =
     (let d1 = (if length (items d) = max_len d
                then (case contains now k d of
                        (True, d') \<Rightarrow> delitem k d'
                      | (False, d') \<Rightarrow> popitem_first d')
                else d)
      in d1\<lparr>items := od_setitem k (v, now) (items d1)\<rparr>)"

subsection \<open>The continuity cache of the bot\<close>

definition MAX_SESSION_NUM :: nat where
  "MAX_SESSION_NUM = 1000"

definition MAX_AGE_SECONDS :: real where
  "MAX_AGE_SECONDS = 1800"

text \<open>An entry: \<^verbatim>\<open>(conversation_id, previous_convo_id)\<close>, keyed by the user's id.\<close>

type_synonym entry = "pyval \<times> pyval"

text \<open>
  The backend client object \<^verbatim>\<open>gpt3_bot\<close>: the two attributes the relay assigns, and
  whatever else the client keeps (\<open>session\<close>).
\<close>

record 's chatbot =
  parent_id :: pyval
  conversation_id :: pyval
  session :: 's

text \<open>A response of the backend: a dictionary from keys to values.\<close>

type_synonym response = "string \<rightharpoonup> pyval"

text \<open>
  The collaborators the code calls and does not define: the clock (\<open>time_time E n\<close> is
  its reading number \<open>n\<close>), the generator \<^verbatim>\<open>uuid.uuid4\<close> (\<open>uuid4 E n\<close> is the text of
  its draw number \<open>n\<close>), and the two methods of the backend client the bot calls.
\<close>

record 's env =
  time_time :: "nat \<Rightarrow> real"
  uuid4 :: "nat \<Rightarrow> string"
  get_chat_response :: "string \<Rightarrow> 's chatbot \<Rightarrow> (exn + response) \<times> 's chatbot"
  reset_chat :: "'s chatbot \<Rightarrow> 's chatbot"

text \<open>A call of \<^verbatim>\<open>context.bot.send_message\<close>: the chat, the message replied to, the text.\<close>

record outgoing =
  to_chat :: int
  reply_to :: "int option"
  body :: pyval

text \<open>
  The state of the process: the module's cache, the client object, how many readings
  of the clock and draws of the generator have been made, and the messages sent so far
  (latest last).
\<close>

record 's world =
  prev_conv_id_cache :: "(int, entry) expiring_dict"
  gpt3_bot :: "'s chatbot"
  clock_reads :: nat
  uuids_drawn :: nat
  sent :: "outgoing list"

text \<open>
  A reading of the clock, \<^verbatim>\<open>time.time()\<close>, as the operations of the dictionary make
  it: the next reading of the environment.
\<close>

definition now_reading :: "'s env \<Rightarrow> 's world \<Rightarrow> real \<times> 's world" where
  "now_reading E w = (time_time E (clock_reads w), w\<lparr>clock_reads := Suc (clock_reads w)\<rparr>)"

text \<open>\<^verbatim>\<open>generate_uuid\<close> (lines 20--21).\<close>

definition generate_uuid :: "'s env \<Rightarrow> 's world \<Rightarrow> string \<times> 's world" where
  "generate_uuid E w = (uuid4 E (uuids_drawn w), w\<lparr>uuids_drawn := Suc (uuids_drawn w)\<rparr>)"

text \<open>
  \<^verbatim>\<open>get_prev_conv_id\<close> (lines 24--28): the membership test, the assignment of a fresh
  entry when the test fails, and the final read each look at the clock once; the read
  can raise \<^verbatim>\<open>KeyError\<close>.
\<close>

definition get_prev_conv_id :: "'s env \<Rightarrow> int \<Rightarrow> 's world \<Rightarrow> (exn + entry) \<times> 's world" where
  "get_prev_conv_id E user w =
     (let (t1, w1) = now_reading E w;
          (present, d1) = contains t1 user (prev_conv_id_cache w1);
          w2 = w1\<lparr>prev_conv_id_cache := d1\<rparr>;
          w3 = (if \<not> present
                then (let (tok, wa) = generate_uuid E w2;
                          (t2, wb) = now_reading E wa
                      in wb\<lparr>prev_conv_id_cache :=
                             setitem t2 user (PyNone, PyStr tok) (prev_conv_id_cache wb)\<rparr>)
                else w2);
          (t3, w4) = now_reading E w3;
          (r, d4) = getitem t3 user (prev_conv_id_cache w4)
      in (r, w4\<lparr>prev_conv_id_cache := d4\<rparr>))"

text \<open>\<^verbatim>\<open>set_prev_conv_id\<close> (lines 31--32).\<close>

definition set_prev_conv_id :: "'s env \<Rightarrow> int \<Rightarrow> pyval \<Rightarrow> pyval \<Rightarrow> 's world \<Rightarrow> 's world" where
  "set_prev_conv_id E user conversation_id' prev_conv_id w =
     (let (t, w1) = now_reading E w
      in w1\<lparr>prev_conv_id_cache :=
             setitem t user (conversation_id', prev_conv_id) (prev_conv_id_cache w1)\<rparr>)"

text \<open>The module's cache as line 15 creates it.\<close>

definition prev_conv_id_cache_init :: "(int, entry) expiring_dict" where
  "prev_conv_id_cache_init = ExpiringDict MAX_SESSION_NUM MAX_AGE_SECONDS"

subsection \<open>The relay\<close>

text \<open>
  The handlers are coroutines; here each runs from its start to its end on the state it
  is given. The interleaving of several handlers at an \<^verbatim>\<open>await\<close> is outside the
  embedding.
\<close>

definition fallback_message :: string where
  "fallback_message = ''I'm having some trouble talking to you, please try again later.''"

definition disallowed_message :: string where
  "disallowed_message =
     ''Sorry, you are not allowed to use this bot. You can check out the source code at '' @
     ''https://github.com/n3d1117/chatgpt-telegram-bot''"

text \<open>
  The body of the \<^verbatim>\<open>try\<close> of \<^verbatim>\<open>get_chatgpt_response\<close> (lines 127--138): the lookup,
  the two assignments to the client, the call of the backend, the subscripts
  \<^verbatim>\<open>response["conversation_id"]\<close> and \<^verbatim>\<open>response["parent_id"]\<close> (a missing key raises),
  and the write to the cache. An exception leaves the state as it was when raised.
\<close>

definition get_chatgpt_response_try ::
    "'s env \<Rightarrow> string \<Rightarrow> int \<Rightarrow> 's world \<Rightarrow> (exn + response) \<times> 's world" where
  "get_chatgpt_response_try E message from_user w =
     (case get_prev_conv_id E from_user w of
        (Inl e, w1) \<Rightarrow> (Inl e, w1)
      | (Inr (conversation_id', prev_conv_id), w1) \<Rightarrow>
          (let w2 = w1\<lparr>gpt3_bot := (gpt3_bot w1)\<lparr>parent_id := prev_conv_id,
                                                      conversation_id := conversation_id'\<rparr>\<rparr>
           in case get_chat_response E message (gpt3_bot w2) of
                (Inl e, b) \<Rightarrow> (Inl e, w2\<lparr>gpt3_bot := b\<rparr>)
              | (Inr response, b) \<Rightarrow>
                  (let w3 = w2\<lparr>gpt3_bot := b\<rparr>
                   in case response ''conversation_id'' of
                        None \<Rightarrow> (Inl KeyError, w3)
                      | Some c \<Rightarrow>
                          (case response ''parent_id'' of
                             None \<Rightarrow> (Inl KeyError, w3)
                           | Some p \<Rightarrow> (Inr response, set_prev_conv_id E from_user c p w3)))))"

text \<open>
  \<^verbatim>\<open>get_chatgpt_response\<close> (lines 122--141): the \<^verbatim>\<open>except Exception\<close> clause turns
  every exception of the body into the fallback dictionary.
\<close>

definition get_chatgpt_response ::
    "'s env \<Rightarrow> string \<Rightarrow> int \<Rightarrow> 's world \<Rightarrow> response \<times> 's world" where
  "get_chatgpt_response E message from_user w =
     (case get_chatgpt_response_try E message from_user w of
        (Inr response, w') \<Rightarrow> (response, w')
      | (Inl e, w') \<Rightarrow> ([''message'' \<mapsto> PyStr fallback_message], w'))"

definition send_message :: "int \<Rightarrow> int option \<Rightarrow> pyval \<Rightarrow> 's world \<Rightarrow> 's world" where
  "send_message chat reply text' w =
     w\<lparr>sent := sent w @ [\<lparr>to_chat = chat, reply_to = reply, body = text'\<rparr>]\<rparr>"

text \<open>\<^verbatim>\<open>send_disallowed_message\<close> (lines 143--151).\<close>

definition send_disallowed_message :: "Update \<Rightarrow> 's world \<Rightarrow> 's world" where
  "send_disallowed_message update w =
     send_message (chat_id update) None (PyStr disallowed_message) w"

text \<open>
  \<^verbatim>\<open>prompt\<close> (lines 93--120). The typing task only sends chat actions and is left
  out. \<^verbatim>\<open>response["message"]\<close> is outside any \<^verbatim>\<open>try\<close>: a response without that key
  raises here.
\<close>

definition prompt :: "'s env \<Rightarrow> config \<Rightarrow> Update \<Rightarrow> 's world \<Rightarrow> (exn + unit) \<times> 's world" where
  "prompt E cfg update w =
     (if \<not> is_allowed cfg update then (Inr (), send_disallowed_message update w)
      else
        (case get_chatgpt_response E (message_text update) (from_user_id update) w of
           (response, w1) \<Rightarrow>
             (case response ''message'' of
                None \<Rightarrow> (Inl KeyError, w1)
              | Some m \<Rightarrow>
                  (Inr (), send_message (chat_id update) (Some (message_id update)) m w1))))"

text \<open>\<^verbatim>\<open>reset\<close> (lines 72--83).\<close>

definition reset :: "'s env \<Rightarrow> config \<Rightarrow> Update \<Rightarrow> 's world \<Rightarrow> 's world" where
  "reset E cfg update w =
     (if \<not> is_allowed cfg update then send_disallowed_message update w
      else
        (let w1 = w\<lparr>gpt3_bot := reset_chat E (gpt3_bot w)\<rparr>
         in send_message (chat_id update) None (PyStr ''Done!'') w1))"

text \<open>The two operations of the cache, for runs of them.\<close>

datatype cache_op = GetOrCreate int | Put int pyval pyval

fun run_op :: "'s env \<Rightarrow> cache_op \<Rightarrow> 's world \<Rightarrow> 's world" where
  "run_op E (GetOrCreate user) w = snd (get_prev_conv_id E user w)"
| "run_op E (Put user c p) w = set_prev_conv_id E user c p w"

fun run_ops :: "'s env \<Rightarrow> cache_op list \<Rightarrow> 's world \<Rightarrow> 's world" where
  "run_ops E [] w = w"
| "run_ops E (x # xs) w = run_ops E xs (run_op E x w)"

text \<open>The entries of a store that a read at time \<open>now\<close> would find.\<close>

definition live_entries :: "real \<Rightarrow> ('k, 'v) expiring_dict \<Rightarrow> ('k \<times> ('v \<times> real)) list" where
  "live_entries now d = filter (\<lambda>e. \<not> expired d now (snd (snd e))) (items d)"

subsection \<open>The translation plugin\<close>

text \<open>
  \<^verbatim>\<open>str.lower\<close> on the letters A to Z; the environment of the process is a map from
  names to values, \<^verbatim>\<open>os.getenv\<close> its lookup.
\<close>

definition lower_char :: "char \<Rightarrow> char" where
  "lower_char c =
     (let n = (of_char c :: nat) in if 65 \<le> n \<and> n \<le> 90 then char_of (n + 32) else c)"

definition lower :: "string \<Rightarrow> string" where
  "lower s = map lower_char s"

definition getenv :: "(string \<rightharpoonup> string) \<Rightarrow> string \<Rightarrow> string option" where
  "getenv environ name = environ name"

definition getenv_default :: "(string \<rightharpoonup> string) \<Rightarrow> string \<Rightarrow> string \<Rightarrow> string" where
  "getenv_default environ name dflt = (case environ name of None \<Rightarrow> dflt | Some v \<Rightarrow> v)"

record DeeplTranslatePlugin =
  api_key :: string
  api_pro :: bool

text \<open>
  \<^verbatim>\<open>DeeplTranslatePlugin.__init__\<close> (lines 14--20). \<^verbatim>\<open>not deepl_api_key\<close> holds for
  \<^verbatim>\<open>None\<close> and for the empty string.
\<close>

definition DeeplTranslatePlugin_init :: "(string \<rightharpoonup> string) \<Rightarrow> exn + DeeplTranslatePlugin" where
  "DeeplTranslatePlugin_init environ =
     (let deepl_api_key = getenv environ ''DEEPL_API_KEY'';
          deepl_api_pro = (lower (getenv_default environ ''DEEPL_API_PRO'' ''false'') = ''true'')
      in if (deepl_api_key = None \<or> deepl_api_key = Some []) \<or> \<not> deepl_api_pro
         then Inl (ValueError
           ''DEEPL_API_KEY and DEEPL_API_PLAN environment variable must be set to use DeepL Plugin'')
         else Inr \<lparr>api_key = the deepl_api_key, api_pro = deepl_api_pro\<rparr>)"

text \<open>The choice of the endpoint in \<^verbatim>\<open>execute\<close> (lines 40--43).\<close>

definition execute_url :: "DeeplTranslatePlugin \<Rightarrow> string" where
  "execute_url self =
     (if api_pro self then ''https://api.deepl.com/v2/translate''
      else ''https://api-free.deepl.com/v2/translate'')"

subsection \<open>Reachable caches and sample collaborators\<close>

text \<open>
  What every cache the program can hold satisfies: the limits of line 15, keys stored
  once, no more entries than the capacity.
\<close>

definition wf_cache :: "('k, 'v) expiring_dict \<Rightarrow> bool" where
  "wf_cache d = (max_len d = MAX_SESSION_NUM \<and> max_age d = MAX_AGE_SECONDS
      \<and> distinct (map fst (items d)) \<and> length (items d) \<le> max_len d)"

text \<open>
  Sample collaborators for the concrete instances below: a clock that advances one
  second per reading, a generator whose draws never repeat, a backend that answers, and
  one that raises.
\<close>

definition example_env :: "unit env" where
  "example_env =
     \<lparr>time_time = (\<lambda>n. real n),
      uuid4 = (\<lambda>n. replicate (Suc n) CHR ''u''),
      get_chat_response = (\<lambda>message b.
        (Inr [''message'' \<mapsto> PyStr ''hi!'', ''conversation_id'' \<mapsto> PyStr ''c1'',
              ''parent_id'' \<mapsto> PyStr ''m1''], b)),
      reset_chat = (\<lambda>b. b\<lparr>parent_id := PyNone, conversation_id := PyNone\<rparr>)\<rparr>"

definition failing_env :: "unit env" where
  "failing_env = example_env\<lparr>get_chat_response := (\<lambda>message b. (Inl (OtherException ''timeout''), b))\<rparr>"

definition example_world :: "unit world" where
  "example_world =
     \<lparr>prev_conv_id_cache = prev_conv_id_cache_init,
      gpt3_bot = \<lparr>parent_id = PyNone, conversation_id = PyNone, session = ()\<rparr>,
      clock_reads = 0, uuids_drawn = 0, sent = []\<rparr>"

text \<open>
  Sample states and a sample message: a world in which user 42 holds a live entry, the
  same world some 1900 seconds later, and a private message of user 42 that the sample
  configuration admits.
\<close>

definition busy_world :: "unit world" where
  "busy_world =
     \<lparr>prev_conv_id_cache = \<lparr>max_len = 1000, max_age = 1800,
        items = [(42, ((PyStr ''c1'', PyStr ''m1''), 100))]\<rparr>,
      gpt3_bot = \<lparr>parent_id = PyStr ''m1'', conversation_id = PyStr ''c1'', session = ()\<rparr>,
      clock_reads = 101, uuids_drawn = 1, sent = []\<rparr>"

definition stale_world :: "unit world" where
  "stale_world = busy_world\<lparr>clock_reads := 2000\<rparr>"

definition example_config :: config where
  "example_config = \<lparr>allowed_user_ids = ''42,43'', allowed_chat_ids = ''-100''\<rparr>"

definition example_update :: Update where
  "example_update = \<lparr>from_user_id = 42, chat_id = 42, chat_type = PRIVATE, message_id = 7,
     message_text = ''hello''\<rparr>"

section \<open>Properties of the expiring dictionary\<close>

lemma keys_od_setitem:
  "map fst (od_setitem k w xs) = (if k \<in> set (map fst xs) then map fst xs else map fst xs @ [k])"
  by (induction xs) auto

lemma map_of_od_setitem: "map_of (od_setitem k w xs) = (map_of xs)(k \<mapsto> w)"
  by (induction xs) (auto simp: fun_eq_iff)

lemma map_of_filter_neq: "map_of (filter (\<lambda>e. fst e \<noteq> k) xs) = (map_of xs)(k := None)"
  by (induction xs) (auto simp: fun_eq_iff)

lemma contains_fields [simp]:
  "max_len (snd (contains now k d)) = max_len d" "max_age (snd (contains now k d)) = max_age d"
  by (auto simp: contains_def delitem_def split: option.splits)

lemma getitem_fields [simp]:
  "max_len (snd (getitem now k d)) = max_len d" "max_age (snd (getitem now k d)) = max_age d"
  by (auto simp: getitem_def delitem_def split: option.splits)

lemma setitem_fields [simp]:
  "max_len (setitem now k v d) = max_len d" "max_age (setitem now k v d) = max_age d"
  by (auto simp: setitem_def Let_def contains_def delitem_def popitem_first_def split: option.splits prod.splits bool.splits)

lemma setitem_lookup: "map_of (items (setitem now k v d)) k = Some (v, now)"
  by (simp add: setitem_def Let_def map_of_od_setitem)

lemma contains_absent: "map_of (items d) k = None \<Longrightarrow> contains now k d = (False, d)"
  by (simp add: contains_def)

lemma contains_live:
  "map_of (items d) k = Some (v, s) \<Longrightarrow> \<not> expired d now s \<Longrightarrow> contains now k d = (True, d)"
  by (simp add: contains_def)

lemma contains_expired:
  "map_of (items d) k = Some (v, s) \<Longrightarrow> expired d now s \<Longrightarrow> contains now k d = (False, delitem k d)"
  by (simp add: contains_def)

lemma getitem_live:
  "map_of (items d) k = Some (v, s) \<Longrightarrow> \<not> expired d now s \<Longrightarrow> getitem now k d = (Inr v, d)"
  by (simp add: getitem_def)

lemma getitem_expired:
  "map_of (items d) k = Some (v, s) \<Longrightarrow> expired d now s \<Longrightarrow> getitem now k d = (Inl KeyError, delitem k d)"
  by (simp add: getitem_def)

lemma not_expired_within: "max_age d = MAX_AGE_SECONDS \<Longrightarrow> now - s < MAX_AGE_SECONDS \<Longrightarrow> \<not> expired d now s"
  by (simp add: expired_def)

lemma wf_delitem: "wf_cache d \<Longrightarrow> wf_cache (delitem k d)"
  by (auto simp: wf_cache_def delitem_def distinct_map_filter intro: le_trans[OF length_filter_le])

lemma wf_contains: "wf_cache d \<Longrightarrow> wf_cache (snd (contains now k d))"
  by (auto simp: contains_def wf_delitem split: option.splits)

lemma wf_getitem: "wf_cache d \<Longrightarrow> wf_cache (snd (getitem now k d))"
  by (auto simp: getitem_def wf_delitem split: option.splits)

lemma length_od_setitem:
  "length (od_setitem k w xs) = (if k \<in> set (map fst xs) then length xs else Suc (length xs))"
  by (induction xs) auto

lemma distinct_od_setitem: "distinct (map fst xs) \<Longrightarrow> distinct (map fst (od_setitem k w xs))"
  by (simp add: keys_od_setitem)

lemma length_filter_present:
  "k \<in> set (map fst xs) \<Longrightarrow> length (filter (\<lambda>e. fst e \<noteq> k) xs) < length xs"
  by (auto intro: length_filter_less)

lemma map_of_Some_key: "map_of xs k = Some y \<Longrightarrow> k \<in> set (map fst xs)"
  by (metis domI dom_map_of_conv_image_fst set_map)

lemma length_setitem:
  assumes "length (items d) \<le> max_len d" "0 < max_len d"
  shows "length (items (setitem now k v d)) \<le> max_len d"
proof (cases "length (items d) = max_len d")
  case False
  with assms show ?thesis
    by (simp add: setitem_def Let_def length_od_setitem)
next
  case full: True
  show ?thesis
  proof (cases "map_of (items d) k")
    case None
    then have "contains now k d = (False, d)" by (rule contains_absent)
    with full assms show ?thesis
      by (cases "items d") (auto simp: setitem_def Let_def popitem_first_def length_od_setitem)
  next
    case (Some a)
    then have pres: "k \<in> set (map fst (items d))" by (rule map_of_Some_key)
    obtain val s where a: "a = (val, s)" by (cases a)
    have shorter: "length (items (delitem k d)) < max_len d"
      using length_filter_present[OF pres] full by (simp add: delitem_def)
    show ?thesis
    proof (cases "expired d now s")
      case True
      with Some a have "contains now k d = (False, delitem k d)" by (simp add: contains_expired)
      with full shorter show ?thesis
        by (cases "items (delitem k d)")
           (auto simp: setitem_def Let_def popitem_first_def length_od_setitem delitem_def)
    next
      case False
      with Some a have "contains now k d = (True, d)" by (simp add: contains_live)
      with full shorter show ?thesis
        by (auto simp: setitem_def Let_def length_od_setitem delitem_def)
    qed
  qed
qed

lemma distinct_delitem:
  "distinct (map fst (items d)) \<Longrightarrow> distinct (map fst (items (delitem k d)))"
  by (simp add: delitem_def distinct_map_filter)

lemma distinct_popitem_first:
  "distinct (map fst (items d)) \<Longrightarrow> distinct (map fst (items (popitem_first d)))"
  by (cases "items d") (simp_all add: popitem_first_def)

lemma distinct_contains:
  "distinct (map fst (items d)) \<Longrightarrow> distinct (map fst (items (snd (contains now k d))))"
  by (auto simp: contains_def distinct_delitem split: option.splits)

lemma distinct_setitem:
  assumes "distinct (map fst (items d))"
  shows "distinct (map fst (items (setitem now k v d)))"
proof -
  obtain b d' where c: "contains now k d = (b, d')" by (cases "contains now k d")
  have "distinct (map fst (items d'))"
    using distinct_contains[OF assms, of now k] c by simp
  then have "distinct (map fst (items (delitem k d')))" "distinct (map fst (items (popitem_first d')))"
    by (simp_all add: distinct_delitem distinct_popitem_first)
  with assms c show ?thesis
    by (cases b) (simp_all add: setitem_def Let_def distinct_od_setitem)
qed

lemma MAX_SESSION_NUM_pos: "0 < MAX_SESSION_NUM"
  by (simp add: MAX_SESSION_NUM_def)

lemma wf_setitem: "wf_cache d \<Longrightarrow> wf_cache (setitem now k v d)"
  using length_setitem[of d now k v] distinct_setitem[of d now k v] MAX_SESSION_NUM_pos
  by (simp add: wf_cache_def)

section \<open>Properties of the cache functions\<close>

lemma get_prev_conv_id_fresh:
  assumes age: "max_age (prev_conv_id_cache w) = MAX_AGE_SECONDS"
    and absent: "\<not> fst (contains (time_time E (clock_reads w)) u (prev_conv_id_cache w))"
    and quick: "time_time E (clock_reads w + 2) - time_time E (clock_reads w + 1) < MAX_AGE_SECONDS"
  shows "get_prev_conv_id E u w =
    (Inr (PyNone, PyStr (uuid4 E (uuids_drawn w))),
     w\<lparr>clock_reads := clock_reads w + 3, uuids_drawn := Suc (uuids_drawn w),
       prev_conv_id_cache :=
         setitem (time_time E (clock_reads w + 1)) u (PyNone, PyStr (uuid4 E (uuids_drawn w)))
           (snd (contains (time_time E (clock_reads w)) u (prev_conv_id_cache w)))\<rparr>)"
proof -
  let ?t1 = "time_time E (clock_reads w)"
  let ?t2 = "time_time E (clock_reads w + 1)"
  let ?t3 = "time_time E (clock_reads w + 2)"
  let ?tok = "uuid4 E (uuids_drawn w)"
  obtain d1 where c: "contains ?t1 u (prev_conv_id_cache w) = (False, d1)"
    using absent by (cases "contains ?t1 u (prev_conv_id_cache w)") auto
  let ?d2 = "setitem ?t2 u (PyNone, PyStr ?tok) d1"
  have "max_age d1 = MAX_AGE_SECONDS"
    using contains_fields(2)[of ?t1 u "prev_conv_id_cache w"] c age by simp
  then have age2: "max_age ?d2 = MAX_AGE_SECONDS" by simp
  have "map_of (items ?d2) u = Some ((PyNone, PyStr ?tok), ?t2)" by (rule setitem_lookup)
  then have g: "getitem ?t3 u ?d2 = (Inr (PyNone, PyStr ?tok), ?d2)"
    using not_expired_within[OF age2 quick] by (rule getitem_live)
  show ?thesis
    using c g by (simp add: get_prev_conv_id_def now_reading_def generate_uuid_def Let_def
        numeral_3_eq_3 numeral_2_eq_2)
qed

lemma get_prev_conv_id_live:
  assumes age: "max_age (prev_conv_id_cache w) = MAX_AGE_SECONDS"
    and stored: "map_of (items (prev_conv_id_cache w)) u = Some (v, s)"
    and live1: "time_time E (clock_reads w) - s < MAX_AGE_SECONDS"
    and live2: "time_time E (clock_reads w + 1) - s < MAX_AGE_SECONDS"
  shows "get_prev_conv_id E u w = (Inr v, w\<lparr>clock_reads := clock_reads w + 2\<rparr>)"
proof -
  have c: "contains (time_time E (clock_reads w)) u (prev_conv_id_cache w) = (True, prev_conv_id_cache w)"
    using stored not_expired_within[OF age live1] by (rule contains_live)
  have g: "getitem (time_time E (clock_reads w + 1)) u (prev_conv_id_cache w) = (Inr v, prev_conv_id_cache w)"
    using stored not_expired_within[OF age live2] by (rule getitem_live)
  show ?thesis
    using c g by (simp add: get_prev_conv_id_def now_reading_def Let_def numeral_2_eq_2)
qed

lemma set_prev_conv_id_eq:
  "set_prev_conv_id E u c p w =
     w\<lparr>clock_reads := Suc (clock_reads w),
       prev_conv_id_cache := setitem (time_time E (clock_reads w)) u (c, p) (prev_conv_id_cache w)\<rparr>"
  by (simp add: set_prev_conv_id_def now_reading_def)

lemma wf_get_prev_conv_id:
  "wf_cache (prev_conv_id_cache w) \<Longrightarrow> wf_cache (prev_conv_id_cache (snd (get_prev_conv_id E u w)))"
proof -
  assume wf: "wf_cache (prev_conv_id_cache w)"
  obtain b d1 where c: "contains (time_time E (clock_reads w)) u (prev_conv_id_cache w) = (b, d1)"
    by (cases "contains (time_time E (clock_reads w)) u (prev_conv_id_cache w)")
  have wf1: "wf_cache d1"
    using wf_contains[OF wf, of "time_time E (clock_reads w)" u] c by simp
  show ?thesis
    using c wf1 by (cases b)
      (simp_all add: get_prev_conv_id_def now_reading_def generate_uuid_def Let_def case_prod_beta
        wf_getitem wf_setitem)
qed

lemma wf_set_prev_conv_id:
  "wf_cache (prev_conv_id_cache w) \<Longrightarrow> wf_cache (prev_conv_id_cache (set_prev_conv_id E u c p w))"
  by (simp add: set_prev_conv_id_eq wf_setitem)

lemma wf_run_op:
  "wf_cache (prev_conv_id_cache w) \<Longrightarrow> wf_cache (prev_conv_id_cache (run_op E x w))"
  by (cases x) (simp_all add: wf_get_prev_conv_id wf_set_prev_conv_id)

lemma wf_run_ops:
  "wf_cache (prev_conv_id_cache w) \<Longrightarrow> wf_cache (prev_conv_id_cache (run_ops E xs w))"
  by (induction xs arbitrary: w) (simp_all add: wf_run_op)

lemma wf_init: "wf_cache prev_conv_id_cache_init"
  by (simp add: wf_cache_def prev_conv_id_cache_init_def ExpiringDict_def)

lemma setitem_full_new:
  assumes full: "length (items d) = max_len d" and pos: "0 < max_len d"
    and new: "map_of (items d) k = None"
  shows "items (setitem now k v d) = tl (items d) @ [(k, (v, now))]"
proof -
  obtain e es where es: "items d = e # es"
    using full pos by (cases "items d") auto
  have "k \<notin> set (map fst (items d))"
    using new by (simp add: map_of_eq_None_iff)
  then have notin: "k \<notin> set (map fst es)" using es by simp
  have app: "od_setitem k (v, now) es = es @ [(k, (v, now))]"
    using notin by (induction es) auto
  show ?thesis
    using full es app contains_absent[OF new, of now]
    by (simp add: setitem_def Let_def popitem_first_def)
qed

lemmas cache_defs = prev_conv_id_cache_init_def ExpiringDict_def MAX_SESSION_NUM_def
  MAX_AGE_SECONDS_def contains_def getitem_def setitem_def delitem_def popitem_first_def
  expired_def

lemmas example_defs = example_env_def failing_env_def example_world_def


lemma try_backend_raises:
  assumes "get_prev_conv_id E u w = (Inr (c, p), w1)"
    and "get_chat_response E m ((gpt3_bot w1)\<lparr>parent_id := p, conversation_id := c\<rparr>) = (Inl e, b)"
  shows "get_chatgpt_response_try E m u w = (Inl e, w1\<lparr>gpt3_bot := b\<rparr>)"
  using assms by (simp add: get_chatgpt_response_try_def Let_def)

lemma try_backend_answers:
  assumes "get_prev_conv_id E u w = (Inr (c, p), w1)"
    and "get_chat_response E m ((gpt3_bot w1)\<lparr>parent_id := p, conversation_id := c\<rparr>) = (Inr r, b)"
    and "r ''conversation_id'' = Some c'" and "r ''parent_id'' = Some p'"
  shows "get_chatgpt_response_try E m u w = (Inr r, set_prev_conv_id E u c' p' (w1\<lparr>gpt3_bot := b\<rparr>))"
  using assms by (simp add: get_chatgpt_response_try_def Let_def)

lemma response_of_raise:
  "get_chatgpt_response_try E m u w = (Inl e, w') \<Longrightarrow>
     get_chatgpt_response E m u w = ([''message'' \<mapsto> PyStr fallback_message], w')"
  by (simp add: get_chatgpt_response_def)

lemma response_of_answer:
  "get_chatgpt_response_try E m u w = (Inr r, w') \<Longrightarrow> get_chatgpt_response E m u w = (r, w')"
  by (simp add: get_chatgpt_response_def)

lemma delitem_other: "k \<noteq> u \<Longrightarrow> map_of (items (delitem k d)) u = map_of (items d) u"
  by (simp add: delitem_def map_of_filter_neq)

lemma contains_other:
  "k \<noteq> u \<Longrightarrow> map_of (items (snd (contains now k d))) u = map_of (items d) u"
  by (auto simp: contains_def delitem_other split: option.splits)

lemma getitem_other:
  "k \<noteq> u \<Longrightarrow> map_of (items (snd (getitem now k d))) u = map_of (items d) u"
  by (auto simp: getitem_def delitem_other split: option.splits)

lemma get_prev_conv_id_frame:
  "get_prev_conv_id E u (w\<lparr>gpt3_bot := b, sent := out\<rparr>) =
     (fst (get_prev_conv_id E u w), (snd (get_prev_conv_id E u w))\<lparr>gpt3_bot := b, sent := out\<rparr>)"
proof -
  obtain pr d1 where c: "contains (time_time E (clock_reads w)) u (prev_conv_id_cache w) = (pr, d1)"
    by (cases "contains (time_time E (clock_reads w)) u (prev_conv_id_cache w)")
  show ?thesis
    using c by (cases pr)
      (simp_all add: get_prev_conv_id_def now_reading_def generate_uuid_def Let_def case_prod_beta)
qed

section \<open>The sample instances\<close>

lemmas world_defs = busy_world_def stale_world_def example_config_def example_update_def

lemma example_allowed: "is_allowed example_config example_update"
  by (simp add: is_allowed_def example_config_def example_update_def split_def str_int_def
      str_nat.simps)

section \<open>The claims\<close>

text \<open>
  Claim C1. \<open>is_allowed\<close> decides by the ordered rules: a private chat under the user
  wildcard is allowed; else a group chat under the chat wildcard; else a private chat
  whose requester's id is one of the comma-separated user ids; else a group or
  supergroup whose chat id is one of the comma-separated chat ids; else the message is
  denied. A wildcard does not cross chat kinds: outside private chats the answer does
  not depend on the user list at all, and in private chats it does not depend on the
  chat list; so a group message under the user wildcard is denied unless the chat list
  itself admits it.
\<close>

theorem is_allowed_rules:
  "is_allowed cfg u =
     (if allowed_user_ids cfg = ''*'' \<and> chat_type u = PRIVATE then True
      else if allowed_chat_ids cfg = ''*'' \<and> chat_type u = GROUP then True
      else if str_int (from_user_id u) \<in> set (split (allowed_user_ids cfg) CHR '','')
              \<and> chat_type u = PRIVATE then True
      else if str_int (chat_id u) \<in> set (split (allowed_chat_ids cfg) CHR '','')
              \<and> (chat_type u = GROUP \<or> chat_type u = SUPERGROUP) then True
      else False)
   \<and> (chat_type u \<noteq> PRIVATE \<longrightarrow>
        is_allowed (cfg\<lparr>allowed_user_ids := us\<rparr>) u = is_allowed cfg u)
   \<and> (chat_type u = PRIVATE \<longrightarrow>
        is_allowed (cfg\<lparr>allowed_chat_ids := cs\<rparr>) u = is_allowed cfg u)
   \<and> (allowed_user_ids cfg = ''*'' \<and> chat_type u = GROUP \<and> allowed_chat_ids cfg \<noteq> ''*''
        \<and> str_int (chat_id u) \<notin> set (split (allowed_chat_ids cfg) CHR '','') \<longrightarrow>
        \<not> is_allowed cfg u)"
  by (auto simp: is_allowed_def Let_def)

theorem is_allowed_rules_witness:
  "is_allowed \<lparr>allowed_user_ids = ''*'', allowed_chat_ids = ''-100,-200''\<rparr>
      \<lparr>from_user_id = 42, chat_id = 42, chat_type = PRIVATE, message_id = 1, message_text = ''hello''\<rparr>
   \<and> \<not> is_allowed \<lparr>allowed_user_ids = ''*'', allowed_chat_ids = ''-100,-200''\<rparr>
      \<lparr>from_user_id = 42, chat_id = -300, chat_type = GROUP, message_id = 1, message_text = ''hello''\<rparr>
   \<and> is_allowed \<lparr>allowed_user_ids = ''7,42'', allowed_chat_ids = ''-100,-200''\<rparr>
      \<lparr>from_user_id = 42, chat_id = -200, chat_type = SUPERGROUP, message_id = 1, message_text = ''hello''\<rparr>"
  using is_allowed_rules [of "\<lparr>allowed_user_ids = ''*'', allowed_chat_ids = ''-100,-200''\<rparr>"
      "\<lparr>from_user_id = 42, chat_id = -300, chat_type = GROUP, message_id = 1, message_text = ''hello''\<rparr>" "''7''"]
  by (simp add: is_allowed_def Let_def split_def str_int_def str_nat.simps)

text \<open>
  Claim C2. Whatever exception the body of \<open>get_chatgpt_response\<close> raises, the function
  returns the fixed fallback dictionary; in particular when the call of the backend
  raises \<open>e\<close>, the body raises \<open>e\<close> and the caller gets the fallback message, never
  the exception.
\<close>

theorem get_chatgpt_response_catches:
  "(\<forall>e. fst (get_chatgpt_response_try E message u w) = Inl e \<longrightarrow>
        fst (get_chatgpt_response E message u w) = [''message'' \<mapsto> PyStr fallback_message])
   \<and> (\<forall>c p w1 e. get_prev_conv_id E u w = (Inr (c, p), w1) \<and>
          fst (get_chat_response E message
                 ((gpt3_bot w1)\<lparr>parent_id := p, conversation_id := c\<rparr>)) = Inl e \<longrightarrow>
        fst (get_chatgpt_response_try E message u w) = Inl e \<and>
        fst (get_chatgpt_response E message u w) = [''message'' \<mapsto> PyStr fallback_message])
   \<and> fallback_message = ''I'm having some trouble talking to you, please try again later.''"
proof (intro conjI allI impI)
  fix e assume "fst (get_chatgpt_response_try E message u w) = Inl e"
  then have "get_chatgpt_response_try E message u w = (Inl e, snd (get_chatgpt_response_try E message u w))"
    by (simp add: prod_eq_iff)
  then show "fst (get_chatgpt_response E message u w) = [''message'' \<mapsto> PyStr fallback_message]"
    by (simp add: response_of_raise)
next
  fix c p w1 e
  assume h: "get_prev_conv_id E u w = (Inr (c, p), w1) \<and>
          fst (get_chat_response E message
                 ((gpt3_bot w1)\<lparr>parent_id := p, conversation_id := c\<rparr>)) = Inl e"
  let ?b = "snd (get_chat_response E message ((gpt3_bot w1)\<lparr>parent_id := p, conversation_id := c\<rparr>))"
  have "get_chat_response E message ((gpt3_bot w1)\<lparr>parent_id := p, conversation_id := c\<rparr>) = (Inl e, ?b)"
    using h by (simp add: prod_eq_iff)
  with h have t: "get_chatgpt_response_try E message u w = (Inl e, w1\<lparr>gpt3_bot := ?b\<rparr>)"
    by (intro try_backend_raises) simp_all
  show "fst (get_chatgpt_response_try E message u w) = Inl e" by (simp add: t)
  show "fst (get_chatgpt_response E message u w) = [''message'' \<mapsto> PyStr fallback_message]"
    by (simp add: response_of_raise[OF t])
next
  show "fallback_message = ''I'm having some trouble talking to you, please try again later.''"
    by (simp add: fallback_message_def)
qed

theorem get_chatgpt_response_catches_witness:
  "fst (get_chatgpt_response_try failing_env ''hello'' 42 example_world) = Inl (OtherException ''timeout'')
   \<and> fst (get_chatgpt_response failing_env ''hello'' 42 example_world)
       = [''message'' \<mapsto> PyStr ''I'm having some trouble talking to you, please try again later.'']"
proof -
  have g: "get_prev_conv_id failing_env 42 example_world =
      (Inr (PyNone, PyStr ''u''), example_world\<lparr>clock_reads := 3, uuids_drawn := 1,
      prev_conv_id_cache := \<lparr>max_len = 1000, max_age = 1800,
        items = [(42, ((PyNone, PyStr ''u''), 1))]\<rparr>\<rparr>)"
    by (simp add: get_prev_conv_id_def now_reading_def generate_uuid_def example_defs cache_defs)
  have "fst (get_chatgpt_response_try failing_env ''hello'' 42 example_world) = Inl (OtherException ''timeout'') \<and>
        fst (get_chatgpt_response failing_env ''hello'' 42 example_world) = [''message'' \<mapsto> PyStr fallback_message]"
    using get_chatgpt_response_catches [of failing_env "''hello''" 42 example_world] g
    by (simp add: failing_env_def)
  then show ?thesis by (simp add: fallback_message_def)
qed

text \<open>
  Claim C3. For an allowed message of a user without a live entry, the backend is
  called with \<open>conversation_id = None\<close> and the next draw of the generator as
  \<open>parent_id\<close>; when that call returns a response with reply text \<open>m\<close>, conversation
  id \<open>c\<close> and parent id \<open>p\<close>, the relay's result is that response, \<open>prompt\<close> sends \<open>m\<close>
  as a reply to the message, and the cache then stores exactly \<open>(c, p)\<close> for the user.
\<close>

theorem prompt_first_message:
  fixes w :: "'s world"
  assumes wf: "wf_cache (prev_conv_id_cache w)"
    and allowed: "is_allowed cfg update"
    and fresh: "\<not> fst (contains (time_time E (clock_reads w)) (from_user_id update)
                        (prev_conv_id_cache w))"
    and quick: "time_time E (clock_reads w + 2) - time_time E (clock_reads w + 1) < MAX_AGE_SECONDS"
    and backend: "get_chat_response E (message_text update)
        ((gpt3_bot w)\<lparr>parent_id := PyStr (uuid4 E (uuids_drawn w)), conversation_id := PyNone\<rparr>)
          = (Inr r, b)"
    and reply: "r ''message'' = Some m"
    and conv: "r ''conversation_id'' = Some c"
    and parent: "r ''parent_id'' = Some p"
  shows "fst (get_chatgpt_response E (message_text update) (from_user_id update) w) = r
       \<and> fst (prompt E cfg update w) = Inr ()
       \<and> sent (snd (prompt E cfg update w)) =
           sent w @ [\<lparr>to_chat = chat_id update, reply_to = Some (message_id update), body = m\<rparr>]
       \<and> map_of (items (prev_conv_id_cache (snd (prompt E cfg update w)))) (from_user_id update) =
           Some ((c, p), time_time E (clock_reads w + 3))
       \<and> gpt3_bot (snd (prompt E cfg update w)) = b"
proof -
  let ?u = "from_user_id update"
  let ?tok = "uuid4 E (uuids_drawn w)"
  let ?w1 = "w\<lparr>clock_reads := clock_reads w + 3, uuids_drawn := Suc (uuids_drawn w),
       prev_conv_id_cache := setitem (time_time E (clock_reads w + 1)) ?u (PyNone, PyStr ?tok)
           (snd (contains (time_time E (clock_reads w)) ?u (prev_conv_id_cache w)))\<rparr>"
  have age: "max_age (prev_conv_id_cache w) = MAX_AGE_SECONDS"
    using wf by (simp add: wf_cache_def)
  have g: "get_prev_conv_id E ?u w = (Inr (PyNone, PyStr ?tok), ?w1)"
    using age fresh quick by (rule get_prev_conv_id_fresh)
  have "get_chat_response E (message_text update)
      ((gpt3_bot ?w1)\<lparr>parent_id := PyStr ?tok, conversation_id := PyNone\<rparr>) = (Inr r, b)"
    using backend by simp
  with g have t: "get_chatgpt_response_try E (message_text update) ?u w
      = (Inr r, set_prev_conv_id E ?u c p (?w1\<lparr>gpt3_bot := b\<rparr>))"
    using conv parent by (rule try_backend_answers)
  note a = response_of_answer[OF t]
  have pr: "prompt E cfg update w =
      (Inr (), send_message (chat_id update) (Some (message_id update)) m
                 (set_prev_conv_id E ?u c p (?w1\<lparr>gpt3_bot := b\<rparr>)))"
    using allowed reply by (simp add: prompt_def a)
  show ?thesis
    by (simp add: a pr send_message_def set_prev_conv_id_eq setitem_lookup numeral_3_eq_3)
qed

theorem prompt_first_message_witness:
  "fst (prompt example_env example_config example_update example_world) = Inr ()
   \<and> sent (snd (prompt example_env example_config example_update example_world)) =
       [\<lparr>to_chat = 42, reply_to = Some 7, body = PyStr ''hi!''\<rparr>]
   \<and> map_of (items (prev_conv_id_cache
        (snd (prompt example_env example_config example_update example_world)))) 42 =
       Some ((PyStr ''c1'', PyStr ''m1''), 3)"
proof -
  have wf: "wf_cache (prev_conv_id_cache example_world)"
    by (simp add: example_defs wf_cache_def cache_defs)
  have fresh: "\<not> fst (contains (time_time example_env (clock_reads example_world))
      (from_user_id example_update) (prev_conv_id_cache example_world))"
    by (simp add: example_defs cache_defs)
  have quick: "time_time example_env (clock_reads example_world + 2)
      - time_time example_env (clock_reads example_world + 1) < MAX_AGE_SECONDS"
    by (simp add: example_defs MAX_AGE_SECONDS_def)
  have backend: "get_chat_response example_env (message_text example_update)
        ((gpt3_bot example_world)\<lparr>parent_id := PyStr (uuid4 example_env (uuids_drawn example_world)),
           conversation_id := PyNone\<rparr>)
      = (Inr [''message'' \<mapsto> PyStr ''hi!'', ''conversation_id'' \<mapsto> PyStr ''c1'',
              ''parent_id'' \<mapsto> PyStr ''m1''],
         \<lparr>parent_id = PyStr ''u'', conversation_id = PyNone, session = ()\<rparr>)"
    by (simp add: example_defs)
  show ?thesis
    using prompt_first_message [OF wf example_allowed fresh quick backend,
        of "PyStr ''hi!''" "PyStr ''c1''" "PyStr ''m1''"]
    by (simp add: example_defs world_defs)
qed

text \<open>
  Claim C4 (the code departs from it). With the API key set and \<^verbatim>\<open>DEEPL_API_PRO\<close>
  unset, or set to \<^verbatim>\<open>false\<close>, the constructor raises \<^verbatim>\<open>ValueError\<close>, although
  \<open>execute\<close> has an endpoint for a plugin of the free tier.
\<close>

theorem deepl_free_tier_rejected:
  "DeeplTranslatePlugin_init [''DEEPL_API_KEY'' \<mapsto> ''k''] =
     Inl (ValueError
       ''DEEPL_API_KEY and DEEPL_API_PLAN environment variable must be set to use DeepL Plugin'')
   \<and> DeeplTranslatePlugin_init [''DEEPL_API_KEY'' \<mapsto> ''k'', ''DEEPL_API_PRO'' \<mapsto> ''false''] =
     Inl (ValueError
       ''DEEPL_API_KEY and DEEPL_API_PLAN environment variable must be set to use DeepL Plugin'')
   \<and> execute_url \<lparr>api_key = ''k'', api_pro = False\<rparr> = ''https://api-free.deepl.com/v2/translate''"
  by (simp add: DeeplTranslatePlugin_init_def getenv_def getenv_default_def lower_def
      lower_char_def execute_url_def)



text \<open>
  Claim C6. \<open>set_prev_conv_id\<close> always leaves \<open>(c, p)\<close> stored for the user, and a
  \<open>get_prev_conv_id\<close> that follows within the time-to-live returns exactly \<open>(c, p)\<close>
  without changing the cache.
\<close>

theorem put_then_get_or_create:
  assumes "wf_cache (prev_conv_id_cache w)"
    and "time_time E (clock_reads w + 1) - time_time E (clock_reads w) < MAX_AGE_SECONDS"
    and "time_time E (clock_reads w + 2) - time_time E (clock_reads w) < MAX_AGE_SECONDS"
  shows "map_of (items (prev_conv_id_cache (set_prev_conv_id E u c p w))) u
           = Some ((c, p), time_time E (clock_reads w))
       \<and> fst (get_prev_conv_id E u (set_prev_conv_id E u c p w)) = Inr (c, p)
       \<and> prev_conv_id_cache (snd (get_prev_conv_id E u (set_prev_conv_id E u c p w)))
           = prev_conv_id_cache (set_prev_conv_id E u c p w)"
proof -
  let ?w = "set_prev_conv_id E u c p w"
  have stored: "map_of (items (prev_conv_id_cache ?w)) u = Some ((c, p), time_time E (clock_reads w))"
    by (simp add: set_prev_conv_id_eq setitem_lookup)
  have age: "max_age (prev_conv_id_cache ?w) = MAX_AGE_SECONDS"
    using assms(1) by (simp add: set_prev_conv_id_eq wf_cache_def)
  have reads: "clock_reads ?w = clock_reads w + 1"
    by (simp add: set_prev_conv_id_eq)
  have "get_prev_conv_id E u ?w = (Inr (c, p), ?w\<lparr>clock_reads := clock_reads ?w + 2\<rparr>)"
    using age stored by (rule get_prev_conv_id_live) (use assms(2,3) reads in \<open>simp_all add: add.commute\<close>)
  with stored show ?thesis by simp
qed

theorem put_then_get_or_create_witness:
  "fst (get_prev_conv_id example_env 42
          (set_prev_conv_id example_env 42 (PyStr ''c1'') (PyStr ''m1'') example_world))
     = Inr (PyStr ''c1'', PyStr ''m1'')"
  using put_then_get_or_create [of example_world example_env 42 "PyStr ''c1''" "PyStr ''m1''"]
  by (simp add: example_defs wf_cache_def cache_defs)

text \<open>
  Claim C7. An entry whose age exceeds \<open>MAX_AGE_SECONDS\<close> = 1800 is absent for the
  membership test of the next access, so \<open>get_prev_conv_id\<close> stores and returns
  \<open>(None, t)\<close> with \<open>t\<close> the next draw of the generator. Expiry is decided by the
  access to the key itself: a test or a read of any other key, at any time, leaves the
  entry stored.
\<close>

theorem expired_entry_recreated:
  fixes w :: "'s world"
  assumes wf: "wf_cache (prev_conv_id_cache w)"
    and stored: "map_of (items (prev_conv_id_cache w)) u = Some (v, s)"
    and old: "MAX_AGE_SECONDS < time_time E (clock_reads w) - s"
    and quick: "time_time E (clock_reads w + 2) - time_time E (clock_reads w + 1) < MAX_AGE_SECONDS"
  shows "\<not> fst (contains (time_time E (clock_reads w)) u (prev_conv_id_cache w))
      \<and> fst (get_prev_conv_id E u w) = Inr (PyNone, PyStr (uuid4 E (uuids_drawn w)))
      \<and> map_of (items (prev_conv_id_cache (snd (get_prev_conv_id E u w)))) u =
           Some ((PyNone, PyStr (uuid4 E (uuids_drawn w))), time_time E (clock_reads w + 1))
      \<and> (\<forall>k now. k \<noteq> u \<longrightarrow>
            map_of (items (snd (contains now k (prev_conv_id_cache w)))) u = Some (v, s)
          \<and> map_of (items (snd (getitem now k (prev_conv_id_cache w)))) u = Some (v, s))
      \<and> MAX_AGE_SECONDS = 1800"
proof -
  have age: "max_age (prev_conv_id_cache w) = MAX_AGE_SECONDS"
    using wf by (simp add: wf_cache_def)
  have ex: "expired (prev_conv_id_cache w) (time_time E (clock_reads w)) s"
    using old age by (simp add: expired_def)
  have absent: "\<not> fst (contains (time_time E (clock_reads w)) u (prev_conv_id_cache w))"
    by (simp add: contains_expired[OF stored ex])
  note eq = get_prev_conv_id_fresh[OF age absent quick]
  have a: "fst (get_prev_conv_id E u w) = Inr (PyNone, PyStr (uuid4 E (uuids_drawn w)))"
    by (simp add: eq)
  have b: "map_of (items (prev_conv_id_cache (snd (get_prev_conv_id E u w)))) u =
           Some ((PyNone, PyStr (uuid4 E (uuids_drawn w))), time_time E (clock_reads w + 1))"
    by (simp add: eq setitem_lookup)
  have c: "\<forall>k now. k \<noteq> u \<longrightarrow>
            map_of (items (snd (contains now k (prev_conv_id_cache w)))) u = Some (v, s)
          \<and> map_of (items (snd (getitem now k (prev_conv_id_cache w)))) u = Some (v, s)"
    by (simp add: contains_other getitem_other stored)
  have d: "MAX_AGE_SECONDS = 1800" by (simp add: MAX_AGE_SECONDS_def)
  from absent a b c d show ?thesis by blast
qed

theorem expired_entry_recreated_witness:
  "fst (get_prev_conv_id example_env 42 stale_world) = Inr (PyNone, PyStr ''uu'')
   \<and> map_of (items (prev_conv_id_cache (snd (get_prev_conv_id example_env 42 stale_world)))) 42
       = Some ((PyNone, PyStr ''uu''), 2001)"
proof -
  have wf: "wf_cache (prev_conv_id_cache stale_world)"
    by (simp add: world_defs wf_cache_def cache_defs)
  have stored: "map_of (items (prev_conv_id_cache stale_world)) 42
      = Some ((PyStr ''c1'', PyStr ''m1''), 100)"
    by (simp add: world_defs example_defs)
  have old: "MAX_AGE_SECONDS < time_time example_env (clock_reads stale_world) - 100"
    by (simp add: world_defs example_defs MAX_AGE_SECONDS_def)
  have quick: "time_time example_env (clock_reads stale_world + 2)
      - time_time example_env (clock_reads stale_world + 1) < MAX_AGE_SECONDS"
    by (simp add: world_defs example_defs MAX_AGE_SECONDS_def)
  have vals: "uuid4 example_env (uuids_drawn stale_world) = ''uu''"
    "time_time example_env (clock_reads stale_world + 1) = 2001"
    by (simp_all add: world_defs example_defs)
  show ?thesis
    using expired_entry_recreated [OF wf stored old quick] unfolding vals by blast
qed

text \<open>
  Claim C8. Starting from the cache of line 15, after any run of \<open>get_prev_conv_id\<close> and
  \<open>set_prev_conv_id\<close> the cache stores at most \<open>MAX_SESSION_NUM\<close> = 1000 entries, so at
  most that many are live at any time; and storing a new key in a full store evicts
  the oldest entry, the store staying full.
\<close>

theorem cache_never_exceeds_capacity:
  fixes w :: "'s world" and d :: "('k, 'v) expiring_dict"
  assumes init: "prev_conv_id_cache w = prev_conv_id_cache_init"
  shows "length (items (prev_conv_id_cache (run_ops E ops w))) \<le> MAX_SESSION_NUM
       \<and> length (live_entries now (prev_conv_id_cache (run_ops E ops w))) \<le> MAX_SESSION_NUM
       \<and> MAX_SESSION_NUM = 1000
       \<and> (length (items d) = max_len d \<and> 0 < max_len d \<and> distinct (map fst (items d))
            \<and> map_of (items d) k = None \<longrightarrow>
              fst (hd (items d)) \<in> set (map fst (items d))
            \<and> fst (hd (items d)) \<notin> set (map fst (items (setitem t k v d)))
            \<and> length (items (setitem t k v d)) = max_len d)"
proof (intro conjI impI)
  have "wf_cache (prev_conv_id_cache (run_ops E ops w))"
    using wf_init init by (intro wf_run_ops) simp
  then show len: "length (items (prev_conv_id_cache (run_ops E ops w))) \<le> MAX_SESSION_NUM"
    by (simp add: wf_cache_def)
  have "length (live_entries now (prev_conv_id_cache (run_ops E ops w)))
          \<le> length (items (prev_conv_id_cache (run_ops E ops w)))"
    by (simp add: live_entries_def)
  with len show "length (live_entries now (prev_conv_id_cache (run_ops E ops w))) \<le> MAX_SESSION_NUM"
    by simp
  show "MAX_SESSION_NUM = 1000" by (simp add: MAX_SESSION_NUM_def)
next
  assume h: "length (items d) = max_len d \<and> 0 < max_len d \<and> distinct (map fst (items d))
            \<and> map_of (items d) k = None"
  then obtain e es where es: "items d = e # es" by (cases "items d") auto
  have eq: "items (setitem t k v d) = tl (items d) @ [(k, (v, t))]"
    using h by (intro setitem_full_new) simp_all
  have "k \<notin> set (map fst (items d))" using h by (simp add: map_of_eq_None_iff)
  then have "fst e \<noteq> k" using es by auto
  moreover have "fst e \<notin> set (map fst es)" using h es by simp
  ultimately show "fst (hd (items d)) \<notin> set (map fst (items (setitem t k v d)))"
    using es by (simp add: eq)
  show "fst (hd (items d)) \<in> set (map fst (items d))" using es by simp
  show "length (items (setitem t k v d)) = max_len d" using h es by (simp add: eq)
qed


theorem cache_never_exceeds_capacity_witness:
  "length (items (prev_conv_id_cache
      (run_ops example_env [Put 1 (PyStr ''c'') (PyStr ''p''), GetOrCreate 2] example_world)))
     \<le> MAX_SESSION_NUM
   \<and> (1::nat) \<notin> set (map fst (items (setitem 5 3 ''z''
         \<lparr>max_len = 2, max_age = 10, items = [(1, (''x'', 0)), (2, (''y'', 1))]\<rparr>)))
   \<and> length (items (setitem 5 (3::nat) ''z''
         \<lparr>max_len = 2, max_age = 10, items = [(1, (''x'', 0)), (2, (''y'', 1))]\<rparr>)) = 2"
  using cache_never_exceeds_capacity [where w = example_world and E = example_env
      and ops = "[Put 1 (PyStr ''c'') (PyStr ''p''), GetOrCreate 2]" and now = 5
      and d = "\<lparr>max_len = 2, max_age = 10, items = [(1::nat, (''x'', 0)), (2, (''y'', 1))]\<rparr>"
      and k = 3 and v = "''z''" and t = 5]
  by (simp add: example_defs)

text \<open>
  Claim C9. \<open>reset\<close> changes the backend client (by \<open>reset_chat\<close>, when the message is
  allowed) and the messages sent, and nothing else: the cache, the clock and the
  generator are as before, so a lookup after the reset gives what it would have given
  without it.
\<close>

theorem reset_keeps_cache:
  "prev_conv_id_cache (reset E cfg update w) = prev_conv_id_cache w
   \<and> clock_reads (reset E cfg update w) = clock_reads w
   \<and> uuids_drawn (reset E cfg update w) = uuids_drawn w
   \<and> fst (get_prev_conv_id E u (reset E cfg update w)) = fst (get_prev_conv_id E u w)
   \<and> gpt3_bot (reset E cfg update w) =
       (if is_allowed cfg update then reset_chat E (gpt3_bot w) else gpt3_bot w)"
proof -
  have r: "reset E cfg update w = w\<lparr>gpt3_bot := gpt3_bot (reset E cfg update w),
      sent := sent (reset E cfg update w)\<rparr>"
    by (simp add: reset_def send_disallowed_message_def send_message_def Let_def)
  have "fst (get_prev_conv_id E u (reset E cfg update w)) = fst (get_prev_conv_id E u w)"
    by (subst r) (simp add: get_prev_conv_id_frame)
  then show ?thesis
    by (simp add: reset_def send_disallowed_message_def send_message_def Let_def)
qed

theorem reset_keeps_cache_witness:
  "prev_conv_id_cache (reset example_env example_config example_update busy_world)
     = prev_conv_id_cache busy_world
   \<and> gpt3_bot (reset example_env example_config example_update busy_world)
     = \<lparr>parent_id = PyNone, conversation_id = PyNone, session = ()\<rparr>
   \<and> fst (get_prev_conv_id example_env 42
            (reset example_env example_config example_update busy_world))
     = Inr (PyStr ''c1'', PyStr ''m1'')"
proof -
  have g: "fst (get_prev_conv_id example_env 42 busy_world) = Inr (PyStr ''c1'', PyStr ''m1'')"
    by (simp add: get_prev_conv_id_def now_reading_def world_defs example_defs cache_defs)
  have b: "reset_chat example_env (gpt3_bot busy_world)
      = \<lparr>parent_id = PyNone, conversation_id = PyNone, session = ()\<rparr>"
    by (simp add: world_defs example_defs)
  show ?thesis
    using reset_keeps_cache [of example_env example_config example_update busy_world 42]
      example_allowed g b by simp
qed

text \<open>
  Claim C10. When the call of the backend raises for a user with a live entry,
  \<open>get_chatgpt_response\<close> returns the fallback and leaves the cache as it was. When
  it raises for a user without a live entry, the entry \<open>(None, t)\<close> that the lookup
  created stays stored, and a lookup for the same user within the time-to-live returns
  that same \<open>t\<close> and draws no new token.
\<close>

theorem backend_failure_cache_effect:
  fixes w :: "'s world"
  assumes wf: "wf_cache (prev_conv_id_cache w)"
  shows
   "(\<forall>c p s e. map_of (items (prev_conv_id_cache w)) u = Some ((c, p), s) \<and>
        time_time E (clock_reads w) - s < MAX_AGE_SECONDS \<and>
        time_time E (clock_reads w + 1) - s < MAX_AGE_SECONDS \<and>
        fst (get_chat_response E message
               ((gpt3_bot w)\<lparr>parent_id := p, conversation_id := c\<rparr>)) = Inl e \<longrightarrow>
          fst (get_chatgpt_response E message u w) = [''message'' \<mapsto> PyStr fallback_message] \<and>
          prev_conv_id_cache (snd (get_chatgpt_response E message u w)) = prev_conv_id_cache w)
  \<and> (\<forall>e. \<not> fst (contains (time_time E (clock_reads w)) u (prev_conv_id_cache w)) \<and>
        time_time E (clock_reads w + 2) - time_time E (clock_reads w + 1) < MAX_AGE_SECONDS \<and>
        fst (get_chat_response E message
               ((gpt3_bot w)\<lparr>parent_id := PyStr (uuid4 E (uuids_drawn w)),
                              conversation_id := PyNone\<rparr>)) = Inl e \<longrightarrow>
          fst (get_chatgpt_response E message u w) = [''message'' \<mapsto> PyStr fallback_message] \<and>
          map_of (items (prev_conv_id_cache (snd (get_chatgpt_response E message u w)))) u =
            Some ((PyNone, PyStr (uuid4 E (uuids_drawn w))), time_time E (clock_reads w + 1)) \<and>
          (time_time E (clock_reads w + 3) - time_time E (clock_reads w + 1) < MAX_AGE_SECONDS \<and>
           time_time E (clock_reads w + 4) - time_time E (clock_reads w + 1) < MAX_AGE_SECONDS \<longrightarrow>
             fst (get_prev_conv_id E u (snd (get_chatgpt_response E message u w))) =
               Inr (PyNone, PyStr (uuid4 E (uuids_drawn w))) \<and>
             uuids_drawn (snd (get_prev_conv_id E u (snd (get_chatgpt_response E message u w)))) =
               uuids_drawn (snd (get_chatgpt_response E message u w))))"
proof (intro conjI allI impI)
  fix c p s e
  assume h: "map_of (items (prev_conv_id_cache w)) u = Some ((c, p), s) \<and>
        time_time E (clock_reads w) - s < MAX_AGE_SECONDS \<and>
        time_time E (clock_reads w + 1) - s < MAX_AGE_SECONDS \<and>
        fst (get_chat_response E message
               ((gpt3_bot w)\<lparr>parent_id := p, conversation_id := c\<rparr>)) = Inl e"
  let ?b = "snd (get_chat_response E message ((gpt3_bot w)\<lparr>parent_id := p, conversation_id := c\<rparr>))"
  have age: "max_age (prev_conv_id_cache w) = MAX_AGE_SECONDS"
    using wf by (simp add: wf_cache_def)
  from h have h1: "map_of (items (prev_conv_id_cache w)) u = Some ((c, p), s)"
    and h2: "time_time E (clock_reads w) - s < MAX_AGE_SECONDS"
    and h3: "time_time E (clock_reads w + 1) - s < MAX_AGE_SECONDS"
    and h4: "fst (get_chat_response E message
               ((gpt3_bot w)\<lparr>parent_id := p, conversation_id := c\<rparr>)) = Inl e" by blast+
  have g: "get_prev_conv_id E u w = (Inr (c, p), w\<lparr>clock_reads := clock_reads w + 2\<rparr>)"
    using age h1 h2 h3 by (rule get_prev_conv_id_live)
  have "get_chat_response E message
      ((gpt3_bot (w\<lparr>clock_reads := clock_reads w + 2\<rparr>))\<lparr>parent_id := p, conversation_id := c\<rparr>)
        = (Inl e, ?b)"
    using h4 by (simp add: prod_eq_iff)
  with g have t: "get_chatgpt_response_try E message u w
      = (Inl e, w\<lparr>clock_reads := clock_reads w + 2, gpt3_bot := ?b\<rparr>)"
    by (rule try_backend_raises)
  show "fst (get_chatgpt_response E message u w) = [''message'' \<mapsto> PyStr fallback_message]"
    by (simp add: response_of_raise[OF t])
  show "prev_conv_id_cache (snd (get_chatgpt_response E message u w)) = prev_conv_id_cache w"
    by (simp add: response_of_raise[OF t])
next
  fix e
  assume h: "\<not> fst (contains (time_time E (clock_reads w)) u (prev_conv_id_cache w)) \<and>
        time_time E (clock_reads w + 2) - time_time E (clock_reads w + 1) < MAX_AGE_SECONDS \<and>
        fst (get_chat_response E message
               ((gpt3_bot w)\<lparr>parent_id := PyStr (uuid4 E (uuids_drawn w)),
                              conversation_id := PyNone\<rparr>)) = Inl e"
  let ?tok = "uuid4 E (uuids_drawn w)"
  let ?b = "snd (get_chat_response E message
               ((gpt3_bot w)\<lparr>parent_id := PyStr ?tok, conversation_id := PyNone\<rparr>))"
  let ?d = "setitem (time_time E (clock_reads w + 1)) u (PyNone, PyStr ?tok)
           (snd (contains (time_time E (clock_reads w)) u (prev_conv_id_cache w)))"
  let ?w1 = "w\<lparr>clock_reads := clock_reads w + 3, uuids_drawn := Suc (uuids_drawn w),
       prev_conv_id_cache := ?d\<rparr>"
  have age: "max_age (prev_conv_id_cache w) = MAX_AGE_SECONDS"
    using wf by (simp add: wf_cache_def)
  from h have h1: "\<not> fst (contains (time_time E (clock_reads w)) u (prev_conv_id_cache w))"
    and h2: "time_time E (clock_reads w + 2) - time_time E (clock_reads w + 1) < MAX_AGE_SECONDS"
    and h3: "fst (get_chat_response E message
               ((gpt3_bot w)\<lparr>parent_id := PyStr ?tok, conversation_id := PyNone\<rparr>)) = Inl e"
    by blast+
  have g: "get_prev_conv_id E u w = (Inr (PyNone, PyStr ?tok), ?w1)"
    using age h1 h2 by (rule get_prev_conv_id_fresh)
  have "get_chat_response E message ((gpt3_bot ?w1)\<lparr>parent_id := PyStr ?tok, conversation_id := PyNone\<rparr>)
        = (Inl e, ?b)"
    using h3 by (simp add: prod_eq_iff)
  with g have t: "get_chatgpt_response_try E message u w = (Inl e, ?w1\<lparr>gpt3_bot := ?b\<rparr>)"
    by (rule try_backend_raises)
  note r = response_of_raise[OF t]
  show "fst (get_chatgpt_response E message u w) = [''message'' \<mapsto> PyStr fallback_message]"
    by (simp add: r)
  show st: "map_of (items (prev_conv_id_cache (snd (get_chatgpt_response E message u w)))) u =
            Some ((PyNone, PyStr ?tok), time_time E (clock_reads w + 1))"
    by (simp add: r setitem_lookup)
  assume retry: "time_time E (clock_reads w + 3) - time_time E (clock_reads w + 1) < MAX_AGE_SECONDS \<and>
           time_time E (clock_reads w + 4) - time_time E (clock_reads w + 1) < MAX_AGE_SECONDS"
  let ?w' = "snd (get_chatgpt_response E message u w)"
  have age': "max_age (prev_conv_id_cache ?w') = MAX_AGE_SECONDS"
    using wf_contains[OF wf, of "time_time E (clock_reads w)" u]
    by (simp add: r wf_cache_def)
  have reads: "clock_reads ?w' = clock_reads w + 3" by (simp add: r)
  have l1: "time_time E (clock_reads ?w') - time_time E (clock_reads w + 1) < MAX_AGE_SECONDS"
    using retry by (simp add: reads)
  have l2: "time_time E (clock_reads ?w' + 1) - time_time E (clock_reads w + 1) < MAX_AGE_SECONDS"
    using retry by (simp add: reads add.commute)
  have g': "get_prev_conv_id E u ?w' = (Inr (PyNone, PyStr ?tok), ?w'\<lparr>clock_reads := clock_reads ?w' + 2\<rparr>)"
    using age' st l1 l2 by (rule get_prev_conv_id_live)
  show "fst (get_prev_conv_id E u ?w') = Inr (PyNone, PyStr ?tok)" by (simp add: g')
  show "uuids_drawn (snd (get_prev_conv_id E u ?w')) = uuids_drawn ?w'" by (simp add: g')
qed

theorem backend_failure_cache_effect_witness:
  "prev_conv_id_cache (snd (get_chatgpt_response failing_env ''hello'' 42 busy_world))
     = prev_conv_id_cache busy_world
   \<and> map_of (items (prev_conv_id_cache (snd (get_chatgpt_response failing_env ''hello'' 43 busy_world)))) 43
       = Some ((PyNone, PyStr ''uu''), 102)
   \<and> fst (get_prev_conv_id failing_env 43 (snd (get_chatgpt_response failing_env ''hello'' 43 busy_world)))
       = Inr (PyNone, PyStr ''uu'')"
proof -
  have wf: "wf_cache (prev_conv_id_cache busy_world)"
    by (simp add: world_defs wf_cache_def cache_defs)
  note inst = backend_failure_cache_effect [OF wf, of _ failing_env "''hello''"]
  have live: "map_of (items (prev_conv_id_cache busy_world)) 42 = Some ((PyStr ''c1'', PyStr ''m1''), 100) \<and>
        time_time failing_env (clock_reads busy_world) - 100 < MAX_AGE_SECONDS \<and>
        time_time failing_env (clock_reads busy_world + 1) - 100 < MAX_AGE_SECONDS \<and>
        fst (get_chat_response failing_env ''hello''
               ((gpt3_bot busy_world)\<lparr>parent_id := PyStr ''m1'', conversation_id := PyStr ''c1''\<rparr>))
          = Inl (OtherException ''timeout'')"
    by (simp add: world_defs example_defs MAX_AGE_SECONDS_def)
  have a: "prev_conv_id_cache (snd (get_chatgpt_response failing_env ''hello'' 42 busy_world))
     = prev_conv_id_cache busy_world"
    using inst [of 42] live by blast
  have vals: "uuid4 failing_env (uuids_drawn busy_world) = ''uu''"
    "time_time failing_env (clock_reads busy_world + 1) = 102"
    by (simp_all add: world_defs example_defs numeral_2_eq_2)
  have fresh: "\<not> fst (contains (time_time failing_env (clock_reads busy_world)) 43 (prev_conv_id_cache busy_world)) \<and>
        time_time failing_env (clock_reads busy_world + 2) - time_time failing_env (clock_reads busy_world + 1)
          < MAX_AGE_SECONDS \<and>
        fst (get_chat_response failing_env ''hello''
               ((gpt3_bot busy_world)\<lparr>parent_id := PyStr (uuid4 failing_env (uuids_drawn busy_world)),
                              conversation_id := PyNone\<rparr>)) = Inl (OtherException ''timeout'')"
    by (simp add: world_defs example_defs cache_defs)
  have retry: "time_time failing_env (clock_reads busy_world + 3)
          - time_time failing_env (clock_reads busy_world + 1) < MAX_AGE_SECONDS \<and>
        time_time failing_env (clock_reads busy_world + 4)
          - time_time failing_env (clock_reads busy_world + 1) < MAX_AGE_SECONDS"
    by (simp add: world_defs example_defs MAX_AGE_SECONDS_def)
  have b: "map_of (items (prev_conv_id_cache (snd (get_chatgpt_response failing_env ''hello'' 43 busy_world)))) 43
       = Some ((PyNone, PyStr ''uu''), 102)
     \<and> fst (get_prev_conv_id failing_env 43 (snd (get_chatgpt_response failing_env ''hello'' 43 busy_world)))
       = Inr (PyNone, PyStr ''uu'')"
    using inst [of 43] fresh retry unfolding vals by blast
  from a b show ?thesis by blast
qed

end
